theory Spec2Isabelle
  imports Complex_Main
begin

section \<open>The subway-map renderer of Generate-SubwayMap.py\<close>

text \<open>
  The script draws on a matplotlib axes object. The plotting library is outside the
  repository, so the embedding keeps what the script hands to it: every artist the script
  creates, with the positional and keyword arguments it passes, in the order of the calls.
  A keyword argument a call does not pass is \<open>None\<close> (the library's default applies).
  The library checks what it is handed. The colour check of the \<open>Circle\<close> constructor is
  part of the embedding, because \<open>draw_station\<close> goes on after the constructor returns
  (a second circle, the entry in \<open>self.stations\<close>). The checks inside \<open>ax.plot\<close>,
  \<open>ax.text\<close> and \<open>savefig\<close> are not modelled.

  Python's numbers (the script uses integer and decimal literals, \<open>+\<close>, \<open>-\<close> and one
  multiplication) are idealised as real numbers.
\<close>

type_synonym num = real

subsection \<open>Artists and the renderer's state\<close>

record bbox_kw =
  boxstyle :: string
  facecolor :: string
  edgecolor :: string
  alpha :: num

text \<open>The keyword arguments of \<open>ax.text\<close> that some call of the script passes.\<close>

record text_kw =
  t_fontsize :: "num option"
  t_ha :: "string option"
  t_va :: "string option"
  t_zorder :: "int option"
  t_fontweight :: "string option"
  t_bbox :: "bbox_kw option"
  t_style :: "string option"
  t_color :: "string option"

text \<open>The keyword arguments of \<open>ax.plot\<close>; both calls pass color, linewidth and zorder.\<close>

record plot_kw =
  p_color :: string
  p_linewidth :: num
  p_linestyle :: "string option"
  p_zorder :: int
  p_solid_capstyle :: "string option"

datatype artist =
    Circle "num \<times> num" num string int
      \<comment> \<open>\<open>ax.add_patch(Circle((x, y), radius, color=c, zorder=z))\<close>\<close>
  | Line2D "num list" "num list" plot_kw
      \<comment> \<open>\<open>ax.plot(xs, ys, **kw)\<close>\<close>
  | Text num num string text_kw
      \<comment> \<open>\<open>ax.text(x, y, s, **kw)\<close>\<close>

text \<open>
  \<open>self.fig\<close>, \<open>self.ax\<close> and \<open>self.stations\<close>. \<open>canvas\<close> holds the artists of the
  axes, oldest first.
\<close>

record renderer =
  figsize :: "num \<times> num"
  xlim :: "num \<times> num"
  ylim :: "num \<times> num"
  axis_on :: bool
  canvas :: "artist list"
  fig_facecolor :: "string option"
  ax_facecolor :: "string option"
  stations :: "string \<rightharpoonup> num \<times> num"

datatype error = ValueError | IndexError

text \<open>
  The module-level dictionary \<open>COLORS\<close>. Its keys are six string literals and every lookup
  in the script is by one of these literals, so the dictionary is a record and a lookup a
  field selection.
\<close>

record colors =
  system_info :: string
  network :: string
  config :: string
  devices :: string
  processes :: string
  storage :: string

definition COLORS :: colors where
  "COLORS = \<lparr> system_info = ''#E63946'', network = ''#2A9D8F'', config = ''#F4A261'',
     devices = ''#E76F51'', processes = ''#264653'', storage = ''#8338EC'' \<rparr>"

subsection \<open>The calls into the plotting library\<close>

definition ax_add_patch :: "renderer \<Rightarrow> artist \<Rightarrow> renderer" where
  "ax_add_patch r a = r\<lparr>canvas := canvas r @ [a]\<rparr>"

definition ax_plot :: "renderer \<Rightarrow> num list \<Rightarrow> num list \<Rightarrow> plot_kw \<Rightarrow> renderer" where
  "ax_plot r xs ys kw = r\<lparr>canvas := canvas r @ [Line2D xs ys kw]\<rparr>"

definition ax_text :: "renderer \<Rightarrow> num \<Rightarrow> num \<Rightarrow> string \<Rightarrow> text_kw \<Rightarrow> renderer" where
  "ax_text r x y s kw = r\<lparr>canvas := canvas r @ [Text x y s kw]\<rparr>"

definition no_text_kw :: text_kw where
  "no_text_kw = \<lparr> t_fontsize = None, t_ha = None, t_va = None, t_zorder = None,
     t_fontweight = None, t_bbox = None, t_style = None, t_color = None \<rparr>"

subsection \<open>SubwayMapGenerator\<close>

text \<open>\<open>__init__(self, width=20, height=16)\<close>\<close>

definition SubwayMapGenerator :: "num \<Rightarrow> num \<Rightarrow> renderer" where
  "SubwayMapGenerator width height =
     \<lparr> figsize = (width, height), xlim = (0, 100), ylim = (0, 100), axis_on = False,
       canvas = [], fig_facecolor = None, ax_facecolor = None, stations = Map.empty \<rparr>"

text \<open>
  \<open>Circle(xy, radius, color=c, zorder=z)\<close>. The constructor raises ValueError for a colour
  the library does not know. The library's table of colours is not part of the
  repository: its test is the parameter \<open>accepts\<close>.
\<close>

definition new_Circle ::
  "(string \<Rightarrow> bool) \<Rightarrow> num \<times> num \<Rightarrow> num \<Rightarrow> string \<Rightarrow> int \<Rightarrow> error + artist" where
  "new_Circle accepts centre radius color z =
     (if accepts color then Inr (Circle centre radius color z) else Inl ValueError)"

text \<open>
  \<open>draw_station(self, x, y, name, color, is_interchange=False, size=0.8)\<close>;
  \<open>is_interchange\<close> is the truth value of the argument, \<open>sz\<close> the parameter \<open>size\<close>.
  The result is \<open>Inr\<close> of the renderer when the call returns, and \<open>Inl\<close> of the exception
  with the renderer as the raise leaves it: what was added before stays, what comes after
  (the entry in \<open>self.stations\<close>) is not done.
\<close>

definition draw_station ::
  "(string \<Rightarrow> bool) \<Rightarrow> renderer \<Rightarrow> num \<Rightarrow> num \<Rightarrow> string \<Rightarrow> string \<Rightarrow> bool \<Rightarrow> num \<Rightarrow>
     (error \<times> renderer) + renderer" where
  "draw_station accepts r x y name color is_interchange sz =
     (if is_interchange then
        (case new_Circle accepts (x, y) (sz * 1.2) ''white'' 3 of
           Inl e \<Rightarrow> Inl (e, r)
         | Inr ring \<Rightarrow>
             (let r1 = ax_add_patch r ring
              in case new_Circle accepts (x, y) sz color 4 of
                   Inl e \<Rightarrow> Inl (e, r1)
                 | Inr circle \<Rightarrow>
                     (let r2 = ax_add_patch r1 circle
                      in Inr (r2\<lparr>stations := (stations r2)(name \<mapsto> (x, y))\<rparr>))))
      else
        (case new_Circle accepts (x, y) sz color 3 of
           Inl e \<Rightarrow> Inl (e, r)
         | Inr circle \<Rightarrow>
             (let r1 = ax_add_patch r circle
              in Inr (r1\<lparr>stations := (stations r1)(name \<mapsto> (x, y))\<rparr>))))"

text \<open>
  \<open>zip(*points)\<close>: the i-th result collects the i-th component of every point, up to the
  length of the shortest point; no point gives no result.
\<close>

definition zip_star :: "'a list list \<Rightarrow> 'a list list" where
  "zip_star ps =
     (if ps = [] then []
      else map (\<lambda>i. map (\<lambda>p. p ! i) ps) [0 ..< min_list (map length ps)])"

text \<open>
  \<open>draw_line(self, points, color, linewidth=4, style='-')\<close>. A point is a tuple of
  numbers, given as the list of its components. \<open>xs, ys = zip(*points)\<close> raises ValueError
  unless the zip yields exactly two tuples; the raise comes before anything is drawn.
\<close>

definition draw_line ::
  "renderer \<Rightarrow> num list list \<Rightarrow> string \<Rightarrow> num \<Rightarrow> string \<Rightarrow> error + renderer" where
  "draw_line r points color linewidth style =
     (if length points < 2 then Inr r
      else (case zip_star points of
              [xs, ys] \<Rightarrow>
                Inr (ax_plot r xs ys
                  \<lparr> p_color = color, p_linewidth = linewidth, p_linestyle = Some style,
                    p_zorder = 2, p_solid_capstyle = Some ''round'' \<rparr>)
            | _ \<Rightarrow> Inl ValueError))"

text \<open>
  \<open>add_label(self, x, y, text, fontsize=9, ha='left', va='center', offset_x=2, offset_y=0,
  bbox_style=None, fontweight='normal')\<close>. The optional parameters are a record whose
  default value is the signature's; \<open>bbox_style\<close> is the truth value of the argument.
\<close>

record label_opts =
  fontsize :: num
  ha :: string
  va :: string
  offset_x :: num
  offset_y :: num
  bbox_style :: bool
  fontweight :: string

definition add_label_defaults :: label_opts where
  "add_label_defaults =
     \<lparr> fontsize = 9, ha = ''left'', va = ''center'', offset_x = 2, offset_y = 0,
       bbox_style = False, fontweight = ''normal'' \<rparr>"

definition add_label :: "renderer \<Rightarrow> num \<Rightarrow> num \<Rightarrow> string \<Rightarrow> label_opts \<Rightarrow> renderer" where
  "add_label r x y txt opts =
     (if bbox_style opts then
        ax_text r (x + offset_x opts) (y + offset_y opts) txt
          (no_text_kw\<lparr> t_fontsize := Some (fontsize opts), t_ha := Some (ha opts),
             t_va := Some (va opts), t_zorder := Some 5,
             t_fontweight := Some (fontweight opts),
             t_bbox := Some \<lparr> boxstyle = ''round,pad=0.3'', facecolor = ''white'',
                              edgecolor = ''gray'', alpha = 0.9 \<rparr> \<rparr>)
      else
        ax_text r (x + offset_x opts) (y + offset_y opts) txt
          (no_text_kw\<lparr> t_fontsize := Some (fontsize opts), t_ha := Some (ha opts),
             t_va := Some (va opts), t_zorder := Some 5,
             t_fontweight := Some (fontweight opts) \<rparr>))"

text \<open>
  \<open>draw_legend(self)\<close>. The loop \<open>for i, (label, color) in enumerate(lines)\<close> is
  \<open>legend_entries\<close>, recursive on the list with the index counted up.
\<close>

fun legend_entries ::
  "renderer \<Rightarrow> num \<Rightarrow> num \<Rightarrow> num \<Rightarrow> (string \<times> string) list \<Rightarrow> renderer" where
  "legend_entries r legend_x legend_y i [] = r"
| "legend_entries r legend_x legend_y i ((label, color) # rest) =
     (let y = legend_y - i * 2;
          r1 = ax_plot r [legend_x, legend_x + 4] [y, y]
                 \<lparr> p_color = color, p_linewidth = 4, p_linestyle = None, p_zorder = 2,
                   p_solid_capstyle = None \<rparr>;
          r2 = ax_text r1 (legend_x + 5) y label
                 (no_text_kw\<lparr> t_fontsize := Some 10, t_va := Some ''center'',
                    t_zorder := Some 5 \<rparr>)
      in legend_entries r2 legend_x legend_y (i + 1) rest)"

definition draw_legend :: "renderer \<Rightarrow> renderer" where
  "draw_legend r =
     (let legend_x = 5;
          legend_y = 8;
          r1 = ax_text r legend_x (legend_y + 18) ''PsProc Filesystem''
                 (no_text_kw\<lparr> t_fontsize := Some 24, t_fontweight := Some ''bold'',
                    t_zorder := Some 5 \<rparr>);
          r2 = ax_text r1 legend_x (legend_y + 15) ''Subway Map''
                 (no_text_kw\<lparr> t_fontsize := Some 20, t_fontweight := Some ''bold'',
                    t_zorder := Some 5 \<rparr>);
          lines =
            [ (''System Info Line'', system_info COLORS),
              (''Network Line'', network COLORS),
              (''Configuration Line'', config COLORS),
              (''Devices Line'', devices COLORS),
              (''Process Line'', processes COLORS),
              (''Storage Line'', storage COLORS) ]
      in legend_entries r2 legend_x legend_y 0 lines)"

subsection \<open>generate_map\<close>

text \<open>
  The body of \<open>generate_map\<close> is a straight sequence of calls: the renderer's own methods,
  four direct calls on the axes and the figure, and \<open>for\<close> loops over literal lists. It
  is embedded as that sequence, a list of statements, and run in order. An argument the
  source leaves to its default is written out with the default of the signature.
\<close>

datatype stmt =
    DrawStation num num string string bool num
  | DrawLine "num list list" string num string
  | AddLabel num num string label_opts
  | DrawLegend
  | AxText num num string text_kw
  | FigPatchSetFacecolor string
  | AxSetFacecolor string
  | Raise error

fun exec_stmt :: "(string \<Rightarrow> bool) \<Rightarrow> renderer \<Rightarrow> stmt \<Rightarrow> error + renderer" where
  "exec_stmt accepts r (DrawStation x y name color is_interchange sz) =
     (case draw_station accepts r x y name color is_interchange sz of
        Inl (e, r') \<Rightarrow> Inl e
      | Inr r' \<Rightarrow> Inr r')"
| "exec_stmt accepts r (DrawLine points color linewidth style) =
     draw_line r points color linewidth style"
| "exec_stmt accepts r (AddLabel x y txt opts) = Inr (add_label r x y txt opts)"
| "exec_stmt accepts r DrawLegend = Inr (draw_legend r)"
| "exec_stmt accepts r (AxText x y s kw) = Inr (ax_text r x y s kw)"
| "exec_stmt accepts r (FigPatchSetFacecolor c) = Inr (r\<lparr>fig_facecolor := Some c\<rparr>)"
| "exec_stmt accepts r (AxSetFacecolor c) = Inr (r\<lparr>ax_facecolor := Some c\<rparr>)"
| "exec_stmt accepts r (Raise e) = Inl e"

text \<open>An exception is not caught anywhere: the first one ends the run.\<close>

fun run :: "(string \<Rightarrow> bool) \<Rightarrow> renderer \<Rightarrow> stmt list \<Rightarrow> error + renderer" where
  "run accepts r [] = Inr r"
| "run accepts r (c # cs) =
     (case exec_stmt accepts r c of Inl e \<Rightarrow> Inl e | Inr r' \<Rightarrow> run accepts r' cs)"

text \<open>
  \<open>sys_info_stations\<close> and \<open>storage_stations\<close> start with the pair \<open>(hub_x, hub_y)\<close> and go
  on with triples \<open>(x, y, name)\<close>. \<open>slice2\<close> is \<open>s[:2]\<close>; \<open>item2\<close> is \<open>station[2]\<close>, an
  IndexError on a pair.
\<close>

datatype station_tuple = T2 num num | T3 num num string

fun slice2 :: "station_tuple \<Rightarrow> num list" where
  "slice2 (T2 x y) = [x, y]"
| "slice2 (T3 x y name) = [x, y]"

fun item0 :: "station_tuple \<Rightarrow> num" where
  "item0 (T2 x y) = x"
| "item0 (T3 x y name) = x"

fun item1 :: "station_tuple \<Rightarrow> num" where
  "item1 (T2 x y) = y"
| "item1 (T3 x y name) = y"

fun item2 :: "station_tuple \<Rightarrow> error + string" where
  "item2 (T2 x y) = Inl IndexError"
| "item2 (T3 x y name) = Inr name"

definition hub_x :: num where "hub_x = 50"
definition hub_y :: num where "hub_y = 50"

text \<open>Central hub.\<close>

definition hub_part :: "stmt list" where
  "hub_part =
     [ DrawStation hub_x hub_y ''proc:/'' ''black'' True 1.5,
       AddLabel hub_x hub_y ''proc:/''
         (add_label_defaults\<lparr> fontsize := 14, fontweight := ''bold'', offset_x := 0,
            offset_y := - 3, ha := ''center'', bbox_style := True \<rparr>) ]"

text \<open>System Information Line.\<close>

definition sys_info_stations :: "station_tuple list" where
  "sys_info_stations =
     [ T2 hub_x hub_y,
       T3 hub_x (hub_y + 8) ''cpuinfo'',
       T3 hub_x (hub_y + 14) ''meminfo'',
       T3 hub_x (hub_y + 20) ''version'',
       T3 hub_x (hub_y + 26) ''uptime'',
       T3 hub_x (hub_y + 32) ''loadavg'',
       T3 hub_x (hub_y + 38) ''stat'' ]"

definition sys_info_part :: "stmt list" where
  "sys_info_part =
     DrawLine (map slice2 sys_info_stations) (system_info COLORS) 4 ''-'' #
     concat (map (\<lambda>station.
         case item2 station of
           Inl e \<Rightarrow> [Raise e]
         | Inr name \<Rightarrow>
             [ DrawStation (item0 station) (item1 station) name (system_info COLORS) False 0.8,
               AddLabel (item0 station) (item1 station) name
                 (add_label_defaults\<lparr> offset_x := 3 \<rparr>) ])
       (drop 1 sys_info_stations))"

text \<open>Network Line.\<close>

definition net_hub_x :: num where "net_hub_x = hub_x + 20"
definition net_hub_y :: num where "net_hub_y = hub_y + 20"

definition net_stations :: "(num \<times> num \<times> string) list" where
  "net_stations =
     [ (net_hub_x + 8, net_hub_y + 4, ''dev''),
       (net_hub_x + 12, net_hub_y + 8, ''route''),
       (net_hub_x + 16, net_hub_y + 4, ''arp''),
       (net_hub_x + 20, net_hub_y, ''tcp''),
       (net_hub_x + 20, net_hub_y - 4, ''udp'') ]"

definition network_part :: "stmt list" where
  "network_part =
     [ DrawLine [[hub_x, hub_y], [net_hub_x, net_hub_y]] (network COLORS) 4 ''-'',
       DrawStation net_hub_x net_hub_y ''net/'' (network COLORS) True 0.8,
       AddLabel net_hub_x net_hub_y ''net/''
         (add_label_defaults\<lparr> fontsize := 11, fontweight := ''bold'', offset_x := 0,
            offset_y := 2, ha := ''center'', bbox_style := True \<rparr>) ] @
     concat (map (\<lambda>(x, y, name).
         [ DrawLine [[net_hub_x, net_hub_y], [x, y]] (network COLORS) 3 ''-'',
           DrawStation x y (''net/'' @ name) (network COLORS) False 0.6,
           AddLabel x y name (add_label_defaults\<lparr> fontsize := 8, offset_x := 2 \<rparr>) ])
       net_stations)"

text \<open>Configuration Line, with the sys/kernel sub-stations.\<close>

definition sys_hub_x :: num where "sys_hub_x = hub_x + 20"
definition sys_hub_y :: num where "sys_hub_y = hub_y - 20"
definition kernel_x :: num where "kernel_x = sys_hub_x + 10"
definition kernel_y :: num where "kernel_y = sys_hub_y - 8"

definition kernel_stations :: "(num \<times> num \<times> string) list" where
  "kernel_stations =
     [ (kernel_x + 6, kernel_y - 4, ''hostname''),
       (kernel_x + 10, kernel_y - 6, ''ostype''),
       (kernel_x + 14, kernel_y - 4, ''osrelease''),
       (kernel_x + 18, kernel_y, ''version'') ]"

definition config_part :: "stmt list" where
  "config_part =
     [ DrawLine [[hub_x, hub_y], [sys_hub_x, sys_hub_y]] (config COLORS) 4 ''-'',
       DrawStation sys_hub_x sys_hub_y ''sys/'' (config COLORS) True 0.8,
       AddLabel sys_hub_x sys_hub_y ''sys/''
         (add_label_defaults\<lparr> fontsize := 11, fontweight := ''bold'', offset_x := 0,
            offset_y := - 2.5, ha := ''center'', bbox_style := True \<rparr>),
       DrawLine [[sys_hub_x, sys_hub_y], [kernel_x, kernel_y]] (config COLORS) 4 ''-'',
       DrawStation kernel_x kernel_y ''sys/kernel/'' (config COLORS) True 0.9,
       AddLabel kernel_x kernel_y ''kernel/''
         (add_label_defaults\<lparr> fontsize := 10, fontweight := ''bold'', offset_x := 0,
            offset_y := - 2, ha := ''center'' \<rparr>) ] @
     concat (map (\<lambda>(x, y, name).
         [ DrawLine [[kernel_x, kernel_y], [x, y]] (config COLORS) 3 ''-'',
           DrawStation x y (''kernel/'' @ name) (config COLORS) False 0.6,
           AddLabel x y name (add_label_defaults\<lparr> fontsize := 8, offset_x := 2 \<rparr>) ])
       kernel_stations)"

text \<open>Devices Line.\<close>

definition dev_hub_x :: num where "dev_hub_x = hub_x + 22"
definition dev_hub_y :: num where "dev_hub_y = hub_y"

definition dev_stations :: "(num \<times> num \<times> string) list" where
  "dev_stations =
     [ (dev_hub_x + 8, dev_hub_y + 3, ''block''),
       (dev_hub_x + 8, dev_hub_y - 3, ''character'') ]"

definition devices_part :: "stmt list" where
  "devices_part =
     [ DrawLine [[hub_x, hub_y], [dev_hub_x, dev_hub_y]] (devices COLORS) 4 ''-'',
       DrawStation dev_hub_x dev_hub_y ''devices/'' (devices COLORS) True 0.8,
       AddLabel dev_hub_x dev_hub_y ''devices/''
         (add_label_defaults\<lparr> fontsize := 11, fontweight := ''bold'', offset_x := 0,
            offset_y := 2, ha := ''center'', bbox_style := True \<rparr>) ] @
     concat (map (\<lambda>(x, y, name).
         [ DrawLine [[dev_hub_x, dev_hub_y], [x, y]] (devices COLORS) 3 ''-'',
           DrawStation x y (''devices/'' @ name) (devices COLORS) False 0.6,
           AddLabel x y name (add_label_defaults\<lparr> fontsize := 8, offset_x := 2 \<rparr>) ])
       dev_stations)"

text \<open>Process Line, with the self and [PID] branches.\<close>

definition proc_hub_x :: num where "proc_hub_x = hub_x - 20"
definition proc_hub_y :: num where "proc_hub_y = hub_y + 20"

definition self_stations :: "(num \<times> num \<times> string) list" where
  "self_stations =
     [ (proc_hub_x - 8, proc_hub_y + 4, ''cmdline''),
       (proc_hub_x - 12, proc_hub_y + 8, ''status''),
       (proc_hub_x - 16, proc_hub_y + 4, ''stat''),
       (proc_hub_x - 18, proc_hub_y, ''environ'') ]"

definition pid_x :: num where "pid_x = proc_hub_x"
definition pid_y :: num where "pid_y = proc_hub_y + 12"

definition pid_stations :: "(num \<times> num \<times> string) list" where
  "pid_stations =
     [ (pid_x - 6, pid_y + 4, ''cmdline''),
       (pid_x - 10, pid_y + 6, ''status''),
       (pid_x - 14, pid_y + 4, ''stat''),
       (pid_x - 16, pid_y, ''environ''),
       (pid_x - 16, pid_y - 4, ''maps'') ]"

definition process_part :: "stmt list" where
  "process_part =
     [ DrawLine [[hub_x, hub_y], [proc_hub_x, proc_hub_y]] (processes COLORS) 4 ''-'',
       DrawStation proc_hub_x proc_hub_y ''self/'' (processes COLORS) True 0.8,
       AddLabel proc_hub_x proc_hub_y ''self/''
         (add_label_defaults\<lparr> fontsize := 11, fontweight := ''bold'', offset_x := 0,
            offset_y := 2, ha := ''center'', bbox_style := True \<rparr>) ] @
     concat (map (\<lambda>(x, y, name).
         [ DrawLine [[proc_hub_x, proc_hub_y], [x, y]] (processes COLORS) 3 ''-'',
           DrawStation x y (''self/'' @ name) (processes COLORS) False 0.6,
           AddLabel x y name
             (add_label_defaults\<lparr> fontsize := 8, offset_x := - 2, ha := ''right'' \<rparr>) ])
       self_stations) @
     [ DrawLine [[proc_hub_x, proc_hub_y], [pid_x, pid_y]] (processes COLORS) 4 ''-'',
       DrawStation pid_x pid_y ''[PID]/'' (processes COLORS) True 0.9,
       AddLabel pid_x pid_y ''[PID]/''
         (add_label_defaults\<lparr> fontsize := 10, fontweight := ''bold'', offset_x := 0,
            offset_y := 2, ha := ''center'' \<rparr>) ] @
     concat (map (\<lambda>(x, y, name).
         [ DrawLine [[pid_x, pid_y], [x, y]] (processes COLORS) 3 ''-'',
           DrawStation x y (''[PID]/'' @ name) (processes COLORS) False 0.6,
           AddLabel x y name
             (add_label_defaults\<lparr> fontsize := 8, offset_x := - 2, ha := ''right'' \<rparr>) ])
       pid_stations)"

text \<open>Storage Line.\<close>

definition storage_stations :: "station_tuple list" where
  "storage_stations =
     [ T2 hub_x hub_y,
       T3 (hub_x - 8) (hub_y - 8) ''mounts'',
       T3 (hub_x - 14) (hub_y - 14) ''swaps'',
       T3 (hub_x - 20) (hub_y - 20) ''partitions'',
       T3 (hub_x - 26) (hub_y - 26) ''filesystems'' ]"

definition storage_part :: "stmt list" where
  "storage_part =
     DrawLine (map slice2 storage_stations) (storage COLORS) 4 ''-'' #
     concat (map (\<lambda>station.
         case item2 station of
           Inl e \<Rightarrow> [Raise e]
         | Inr name \<Rightarrow>
             [ DrawStation (item0 station) (item1 station) name (storage COLORS) False 0.8,
               AddLabel (item0 station) (item1 station) name
                 (add_label_defaults\<lparr> offset_x := - 2, ha := ''right'' \<rparr>) ])
       (drop 1 storage_stations))"

text \<open>The two single stations, the legend, the footer and the background colours.\<close>

definition closing_part :: "stmt list" where
  "closing_part =
     [ DrawLine [[hub_x, hub_y], [hub_x - 12, hub_y]] (system_info COLORS) 3 ''-'',
       DrawStation (hub_x - 12) hub_y ''modules'' (system_info COLORS) False 0.6,
       AddLabel (hub_x - 12) hub_y ''modules''
         (add_label_defaults\<lparr> fontsize := 8, offset_x := - 2, ha := ''right'' \<rparr>),
       DrawLine [[hub_x, hub_y], [hub_x, hub_y - 8]] (system_info COLORS) 3 ''-'',
       DrawStation hub_x (hub_y - 8) ''cmdline'' (system_info COLORS) False 0.6,
       AddLabel hub_x (hub_y - 8) ''cmdline''
         (add_label_defaults\<lparr> fontsize := 8, offset_y := - 2, ha := ''center'' \<rparr>),
       DrawLegend,
       AxText 50 2 ''PowerShell proc: Drive Filesystem Structure''
         (no_text_kw\<lparr> t_fontsize := Some 10, t_ha := Some ''center'',
            t_style := Some ''italic'', t_color := Some ''gray'' \<rparr>),
       AxText 50 0.5 ''Generated by Generate-SubwayMap.py''
         (no_text_kw\<lparr> t_fontsize := Some 8, t_ha := Some ''center'',
            t_color := Some ''gray'' \<rparr>),
       FigPatchSetFacecolor ''#f5f5f5'',
       AxSetFacecolor ''white'' ]"

definition generate_map_body :: "stmt list" where
  "generate_map_body =
     hub_part @ sys_info_part @ network_part @ config_part @ devices_part @
     process_part @ storage_part @ closing_part"

text \<open>
  The colours a run of \<open>generate_map\<close> puts to the library's test: \<open>'black'\<close> and the six
  values of the palette, handed to \<open>draw_station\<close>, and \<open>'white'\<close>, which \<open>draw_station\<close>
  hands on itself. The library accepts them all: two colour names and six strings of
  the form \<open>#rrggbb\<close>. No other colour is put to the test, so \<open>generate_map\<close> is run with
  the test that accepts exactly these; a run with any other test that accepts them is
  the same run (\<open>generate_map_any_test\<close> below).
\<close>

definition script_colors :: "string list" where
  "script_colors =
     [ ''white'', ''black'', system_info COLORS, network COLORS, config COLORS,
       devices COLORS, processes COLORS, storage COLORS ]"

definition accepts_script_colors :: "string \<Rightarrow> bool" where
  "accepts_script_colors c = (c \<in> set script_colors)"

definition generate_map :: "renderer \<Rightarrow> error + renderer" where
  "generate_map r = run accepts_script_colors r generate_map_body"

subsection \<open>save and main\<close>

text \<open>
  What the process does to the outside: the lines it prints and the \<open>plt.savefig\<close> calls
  it makes, each with the figure it saves. \<open>plt.tight_layout()\<close> changes no state kept
  here.
\<close>

record savefig_kw =
  sf_dpi :: int
  sf_bbox_inches :: string
  sf_facecolor :: string

record process =
  stdout :: "string list"
  savefig_calls :: "(string \<times> savefig_kw \<times> renderer) list"

text \<open>\<open>save(self, filename='codebase-subway-map.png', dpi=300)\<close>\<close>

definition save :: "renderer \<Rightarrow> process \<Rightarrow> string \<Rightarrow> int \<Rightarrow> process" where
  "save r p filename dpi_value =
     p\<lparr> savefig_calls := savefig_calls p @
           [(filename, \<lparr> sf_dpi = dpi_value, sf_bbox_inches = ''tight'',
                          sf_facecolor = ''#f5f5f5'' \<rparr>, r)],
        stdout := stdout p @ [''Subway map saved to: '' @ filename] \<rparr>"

text \<open>
  The namespace \<open>parser.parse_args()\<close> returns, with its attributes \<open>output\<close> and
  \<open>dpi\<close>. The tokenising of the command line and
  the conversion \<open>type=int\<close> are argparse's; the embedding starts from the values the
  command line gives for the two options, \<open>None\<close> for an option that is absent, and
  applies the defaults declared by \<open>add_argument\<close>.
\<close>

record namespace =
  ns_output :: string
  ns_dpi :: int

definition parse_args :: "string option \<Rightarrow> int option \<Rightarrow> namespace" where
  "parse_args output_given dpi_given =
     \<lparr> ns_output = (case output_given of None \<Rightarrow> ''codebase-subway-map.png'' | Some v \<Rightarrow> v),
       ns_dpi = (case dpi_given of None \<Rightarrow> 300 | Some n \<Rightarrow> n) \<rparr>"

definition main :: "string option \<Rightarrow> int option \<Rightarrow> error + process" where
  "main output_given dpi_given =
     (let args = parse_args output_given dpi_given;
          p0 = \<lparr> stdout = [''Generating PsProc Codebase Subway Map...''],
                 savefig_calls = [] \<rparr>;
          generator = SubwayMapGenerator 20 16
      in case generate_map generator of
           Inl e \<Rightarrow> Inl e
         | Inr generator' \<Rightarrow>
             (let p1 = save generator' p0 (ns_output args) (ns_dpi args)
              in Inr (p1\<lparr> stdout := stdout p1 @
                   [''Done! Map saved as '' @ [CHR 0x27] @ ns_output args @ [CHR 0x27]] \<rparr>)))"

section \<open>Vocabulary of the properties\<close>

text \<open>The depth (\<open>zorder\<close>) a call hands to the library for an artist, if it hands one.\<close>

fun zorder_of :: "artist \<Rightarrow> int option" where
  "zorder_of (Circle centre radius c z) = Some z"
| "zorder_of (Line2D xs ys kw) = Some (p_zorder kw)"
| "zorder_of (Text x y s kw) = t_zorder kw"

fun is_circle :: "artist \<Rightarrow> bool" where
  "is_circle (Circle centre radius c z) = True"
| "is_circle _ = False"

fun is_line :: "artist \<Rightarrow> bool" where
  "is_line (Line2D xs ys kw) = True"
| "is_line _ = False"

fun is_text :: "artist \<Rightarrow> bool" where
  "is_text (Text x y s kw) = True"
| "is_text _ = False"

text \<open>The artists on the canvas of \<open>r'\<close> beyond those of \<open>r\<close>.\<close>

definition drawn_by :: "renderer \<Rightarrow> renderer \<Rightarrow> artist list" where
  "drawn_by r r' = drop (length (canvas r)) (canvas r')"

text \<open>
  A step from \<open>r\<close> to \<open>r'\<close> only adds artists to the canvas, and each one added
  satisfies \<open>P\<close>.
\<close>

definition draws_only :: "renderer \<Rightarrow> renderer \<Rightarrow> (artist \<Rightarrow> bool) \<Rightarrow> bool" where
  "draws_only r r' P =
     (canvas r' = canvas r @ drawn_by r r' \<and> (\<forall>a \<in> set (drawn_by r r'). P a))"

text \<open>The renderer when a call of \<open>draw_station\<close> ends, by return or by raise.\<close>

fun state_after :: "(error \<times> renderer) + renderer \<Rightarrow> renderer" where
  "state_after (Inl (e, r)) = r"
| "state_after (Inr r) = r"

text \<open>The names handed to \<open>draw_station\<close> by a sequence of statements, in order.\<close>

fun station_names :: "stmt list \<Rightarrow> string list" where
  "station_names [] = []"
| "station_names (DrawStation x y name color is_interchange sz # cs) =
     name # station_names cs"
| "station_names (c # cs) = station_names cs"

text \<open>The colours a statement puts to the library's test when nothing stops it.\<close>

fun asks :: "stmt \<Rightarrow> string list" where
  "asks (DrawStation x y name color is_interchange sz) =
     (if is_interchange then [''white'', color] else [color])"
| "asks _ = []"

text \<open>
  A statement that raises nothing: a \<open>draw_station\<close> whose colours pass the test, a
  \<open>draw_line\<close> whose points pass the unpacking, and anything else but a raise.
\<close>

fun raises_nothing :: "(string \<Rightarrow> bool) \<Rightarrow> stmt \<Rightarrow> bool" where
  "raises_nothing accepts (DrawStation x y name color is_interchange sz) =
     list_all accepts (asks (DrawStation x y name color is_interchange sz))"
| "raises_nothing accepts (DrawLine points color linewidth style) =
     (length points < 2 \<or> length (zip_star points) = 2)"
| "raises_nothing accepts (Raise e) = False"
| "raises_nothing accepts _ = True"

section \<open>Facts about the library calls and the primitives\<close>

lemma canvas_ax_add_patch: "canvas (ax_add_patch r a) = canvas r @ [a]"
  by (simp add: ax_add_patch_def)

lemma canvas_ax_plot: "canvas (ax_plot r xs ys kw) = canvas r @ [Line2D xs ys kw]"
  by (simp add: ax_plot_def)

lemma canvas_ax_text: "canvas (ax_text r x y s kw) = canvas r @ [Text x y s kw]"
  by (simp add: ax_text_def)

lemma stations_ax_add_patch: "stations (ax_add_patch r a) = stations r"
  by (simp add: ax_add_patch_def)

lemma stations_ax_plot: "stations (ax_plot r xs ys kw) = stations r"
  by (simp add: ax_plot_def)

lemma stations_ax_text: "stations (ax_text r x y s kw) = stations r"
  by (simp add: ax_text_def)

text \<open>\<open>draw_station\<close> returns exactly when the library accepts the colours it is asked.\<close>

lemma draw_station_returns:
  assumes "accepts color" and "is_interchange \<longrightarrow> accepts ''white''"
  shows "draw_station accepts r x y name color is_interchange sz =
     Inr (r\<lparr> canvas := canvas r @
               (if is_interchange
                then [Circle (x, y) (sz * 1.2) ''white'' 3, Circle (x, y) sz color 4]
                else [Circle (x, y) sz color 3]),
             stations := (stations r)(name \<mapsto> (x, y)) \<rparr>)"
  using assms by (simp add: draw_station_def new_Circle_def Let_def ax_add_patch_def)

lemma draw_station_returned:
  assumes "draw_station accepts r x y name color is_interchange sz = Inr r'"
  shows "accepts color \<and> (is_interchange \<longrightarrow> accepts ''white'')"
  using assms
  by (auto simp: draw_station_def new_Circle_def Let_def split: if_splits)

lemma draw_station_raised:
  assumes "draw_station accepts r x y name color is_interchange sz = Inl (e, r')"
  shows "e = ValueError \<and> stations r' = stations r \<and>
     (canvas r' = canvas r \<or>
      (is_interchange \<and> canvas r' = canvas r @ [Circle (x, y) (sz * 1.2) ''white'' 3]))"
  using assms
  by (auto simp: draw_station_def new_Circle_def Let_def ax_add_patch_def split: if_splits)

text \<open>The two ways \<open>draw_line\<close> returns normally.\<close>

lemma draw_line_cases:
  "draw_line r points color linewidth style = Inr r' \<Longrightarrow>
     (length points < 2 \<and> r' = r) \<or>
     (\<exists>xs ys. zip_star points = [xs, ys] \<and>
        r' = ax_plot r xs ys \<lparr> p_color = color, p_linewidth = linewidth,
               p_linestyle = Some style, p_zorder = 2, p_solid_capstyle = Some ''round'' \<rparr>)"
  by (auto simp: draw_line_def split: if_splits list.splits)

lemma stations_add_label: "stations (add_label r x y t opts) = stations r"
  by (simp add: add_label_def stations_ax_text)

lemma stations_legend_entries:
  "stations (legend_entries r lx ly i ls) = stations r"
  by (induction r lx ly i ls rule: legend_entries.induct)
     (simp_all add: Let_def stations_ax_text stations_ax_plot)

lemma stations_draw_legend: "stations (draw_legend r) = stations r"
  by (simp add: draw_legend_def Let_def stations_legend_entries stations_ax_text
      del: legend_entries.simps)

section \<open>Facts about running a sequence of statements\<close>

lemma exec_stmt_stations:
  assumes "exec_stmt accepts r c = Inr r'"
  shows "dom (stations r') = dom (stations r) \<union> set (station_names [c])"
proof (cases c)
  case (DrawStation x y name color is_interchange sz)
  with assms have ret: "draw_station accepts r x y name color is_interchange sz = Inr r'"
    by (auto split: sum.splits)
  from draw_station_returned [OF ret] have "accepts color" "is_interchange \<longrightarrow> accepts ''white''"
    by simp_all
  from draw_station_returns [OF this, of r x y name sz] ret show ?thesis
    unfolding DrawStation by auto
next
  case (DrawLine points color linewidth style)
  with assms have "draw_line r points color linewidth style = Inr r'"
    by simp
  from draw_line_cases [OF this] show ?thesis
    unfolding DrawLine by (auto simp: stations_ax_plot)
qed (use assms in \<open>auto simp: stations_add_label stations_draw_legend stations_ax_text\<close>)

lemma exec_stmt_total:
  assumes "raises_nothing accepts c"
  shows "\<exists>r'. exec_stmt accepts r c = Inr r'"
proof (cases c)
  case (DrawStation x y name color is_interchange sz)
  with assms have "accepts color" "is_interchange \<longrightarrow> accepts ''white''"
    by (auto split: if_splits)
  from draw_station_returns [OF this, of r x y name sz] show ?thesis
    unfolding DrawStation by simp
next
  case (DrawLine points color linewidth style)
  with assms have "length points < 2 \<or> length (zip_star points) = 2"
    by simp
  then show ?thesis
  proof
    assume "length points < 2"
    then show ?thesis
      unfolding DrawLine by (simp add: draw_line_def)
  next
    assume "length (zip_star points) = 2"
    then obtain xs ys where "zip_star points = [xs, ys]"
      by (auto simp: length_Suc_conv numeral_2_eq_2)
    then show ?thesis
      unfolding DrawLine by (simp add: draw_line_def)
  qed
qed (use assms in auto)

text \<open>A statement asks the test about the colours in \<open>asks\<close> and no other.\<close>

lemma exec_stmt_same_test:
  assumes "\<forall>c \<in> set (asks s). accepts c = accepts' c"
  shows "exec_stmt accepts r s = exec_stmt accepts' r s"
proof (cases s)
  case (DrawStation x y name color is_interchange sz)
  with assms have "draw_station accepts r x y name color is_interchange sz =
      draw_station accepts' r x y name color is_interchange sz"
    by (auto simp: draw_station_def new_Circle_def split: if_splits)
  then show ?thesis
    unfolding DrawStation by simp
qed simp_all

lemma station_names_Cons:
  "station_names (c # cs) = station_names [c] @ station_names cs"
  by (cases c) simp_all

lemma run_stations:
  "run accepts r cs = Inr r' \<Longrightarrow>
     dom (stations r') = dom (stations r) \<union> set (station_names cs)"
proof (induction cs arbitrary: r)
  case Nil
  then show ?case by simp
next
  case (Cons c cs)
  then obtain r1 where step: "exec_stmt accepts r c = Inr r1"
      and rest: "run accepts r1 cs = Inr r'"
    by (auto split: sum.splits)
  from Cons.IH [OF rest] exec_stmt_stations [OF step] show ?case
    by (subst station_names_Cons) auto
qed

lemma run_total:
  "list_all (raises_nothing accepts) cs \<Longrightarrow> \<exists>r'. run accepts r cs = Inr r'"
proof (induction cs arbitrary: r)
  case Nil
  then show ?case by simp
next
  case (Cons c cs)
  then obtain r1 where "exec_stmt accepts r c = Inr r1"
    using exec_stmt_total [of accepts c r] by auto
  with Cons show ?case by simp
qed

lemma run_same_test:
  "\<forall>s \<in> set cs. \<forall>c \<in> set (asks s). accepts c = accepts' c \<Longrightarrow>
     run accepts r cs = run accepts' r cs"
proof (induction cs arbitrary: r)
  case Nil
  then show ?case by simp
next
  case (Cons s cs)
  then have "exec_stmt accepts r s = exec_stmt accepts' r s"
    by (intro exec_stmt_same_test) simp
  with Cons show ?case
    by (simp split: sum.splits)
qed

section \<open>Facts about the body of generate_map\<close>

lemmas body_defs =
  generate_map_body_def hub_part_def sys_info_part_def network_part_def config_part_def
  devices_part_def process_part_def storage_part_def closing_part_def
  sys_info_stations_def net_stations_def kernel_stations_def dev_stations_def
  self_stations_def pid_stations_def storage_stations_def

lemma generate_map_body_asks:
  "list_all (\<lambda>s. list_all (\<lambda>c. c \<in> set script_colors) (asks s)) generate_map_body"
  by (simp add: body_defs script_colors_def)

lemma generate_map_body_raises_nothing:
  "list_all (raises_nothing accepts_script_colors) generate_map_body"
  by (simp add: body_defs zip_star_def accepts_script_colors_def script_colors_def)

lemma generate_map_total: "\<exists>r'. generate_map r = Inr r'"
  unfolding generate_map_def
  by (rule run_total) (rule generate_map_body_raises_nothing)

text \<open>Any test that accepts the script's colours gives the run of \<open>generate_map\<close>.\<close>

lemma generate_map_any_test:
  assumes "list_all accepts script_colors"
  shows "run accepts r generate_map_body = generate_map r"
  unfolding generate_map_def
proof (rule run_same_test, intro ballI)
  fix s c
  assume "s \<in> set generate_map_body" and "c \<in> set (asks s)"
  with generate_map_body_asks have "c \<in> set script_colors"
    by (auto simp: list_all_iff)
  with assms show "accepts c = accepts_script_colors c"
    by (auto simp: list_all_iff accepts_script_colors_def)
qed

lemma station_names_generate_map_body:
  "station_names generate_map_body =
     [ ''proc:/'', ''cpuinfo'', ''meminfo'', ''version'', ''uptime'', ''loadavg'', ''stat'',
       ''net/'', ''net/dev'', ''net/route'', ''net/arp'', ''net/tcp'', ''net/udp'',
       ''sys/'', ''sys/kernel/'', ''kernel/hostname'', ''kernel/ostype'',
       ''kernel/osrelease'', ''kernel/version'',
       ''devices/'', ''devices/block'', ''devices/character'',
       ''self/'', ''self/cmdline'', ''self/status'', ''self/stat'', ''self/environ'',
       ''[PID]/'', ''[PID]/cmdline'', ''[PID]/status'', ''[PID]/stat'', ''[PID]/environ'',
       ''[PID]/maps'',
       ''mounts'', ''swaps'', ''partitions'', ''filesystems'', ''modules'', ''cmdline'' ]"
  by (simp add: body_defs)

lemma distinct_station_names: "distinct (station_names generate_map_body)"
  unfolding station_names_generate_map_body by simp

section \<open>The claims\<close>

text \<open>
  C1. A call of \<open>draw_line\<close> with fewer than two points, whatever the colour, width and
  style, returns normally and leaves the whole renderer as it was: nothing is added to
  the canvas and the stations mapping is untouched.
\<close>

theorem draw_line_short_noop:
  "length points < 2 \<Longrightarrow> draw_line r points color linewidth style = Inr r"
  by (simp add: draw_line_def)

theorem draw_line_short_noop_witness:
  "length [[1, 2 :: num]] < 2 \<and>
   draw_line (SubwayMapGenerator 20 16) [[1, 2]] ''red'' 4 ''-'' = Inr (SubwayMapGenerator 20 16)"
  using draw_line_short_noop [of "[[1, 2]]" "SubwayMapGenerator 20 16" "''red''" 4 "''-''"]
  by simp

text \<open>
  C2, as the claim states it, fails: it speaks of every call, and a call whose colour the
  library rejects raises ValueError in the \<open>Circle\<close> constructor before any circle
  is added. On a fresh renderer, with a test that rejects \<open>'notacolor'\<close>:
\<close>

theorem draw_station_no_circle_counterexample:
  "draw_station accepts_script_colors (SubwayMapGenerator 20 16) 3 4 ''a'' ''notacolor'' False 0.8 =
     Inl (ValueError, SubwayMapGenerator 20 16) \<and>
   canvas (SubwayMapGenerator 20 16) = []"
  by (simp add: draw_station_def new_Circle_def accepts_script_colors_def script_colors_def
      COLORS_def SubwayMapGenerator_def)

text \<open>
  C2, amended. When the library accepts the colour, \<open>draw_station\<close> returns and has
  added exactly one circle for a regular station, of radius \<open>size\<close> and the given colour
  at \<open>(x, y)\<close>. For an interchange, when the library accepts the colour and \<open>'white'\<close>, it
  returns and has added exactly two circles at \<open>(x, y)\<close>: first a white one of radius
  \<open>1.2 * size\<close> at depth 3, then one of radius \<open>size\<close> in the given colour at depth 4,
  which lies on top.
\<close>

theorem draw_station_circles:
  "(accepts color \<longrightarrow>
      (\<exists>r'. draw_station accepts r x y name color False sz = Inr r' \<and>
         canvas r' = canvas r @ [Circle (x, y) sz color 3])) \<and>
   (accepts ''white'' \<and> accepts color \<longrightarrow>
      (\<exists>r'. draw_station accepts r x y name color True sz = Inr r' \<and>
         canvas r' =
           canvas r @ [Circle (x, y) (1.2 * sz) ''white'' 3, Circle (x, y) sz color 4]))"
  by (simp add: draw_station_def new_Circle_def Let_def ax_add_patch_def)

theorem draw_station_circles_witness:
  "accepts_script_colors ''white'' \<and> accepts_script_colors ''#2A9D8F'' \<and>
   (\<exists>r'. draw_station accepts_script_colors (SubwayMapGenerator 20 16) 70 70 ''net/'' ''#2A9D8F''
            False 0.8 = Inr r' \<and>
      canvas r' = [Circle (70, 70) 0.8 ''#2A9D8F'' 3]) \<and>
   (\<exists>r'. draw_station accepts_script_colors (SubwayMapGenerator 20 16) 70 70 ''net/'' ''#2A9D8F''
            True 0.8 = Inr r' \<and>
      canvas r' = [Circle (70, 70) (1.2 * 0.8) ''white'' 3, Circle (70, 70) 0.8 ''#2A9D8F'' 4])"
proof -
  have ok: "accepts_script_colors ''white''" "accepts_script_colors ''#2A9D8F''"
    by (simp_all add: accepts_script_colors_def script_colors_def COLORS_def)
  have "canvas (SubwayMapGenerator 20 16) = []"
    by (simp add: SubwayMapGenerator_def)
  with ok
    draw_station_circles [where accepts = accepts_script_colors
      and r = "SubwayMapGenerator 20 16" and x = 70 and y = 70 and name = "''net/''"
      and color = "''#2A9D8F''" and sz = "0.8"]
  show ?thesis
    by simp
qed

text \<open>
  C3, as the claim states it, fails: the legend's coloured line segments are drawn by
  \<open>draw_legend\<close> at depth 2, not 5. The first of them, on a fresh renderer:
\<close>

theorem legend_line_depth_counterexample:
  "Line2D [5, 9] [8, 8]
     \<lparr> p_color = ''#E63946'', p_linewidth = 4, p_linestyle = None, p_zorder = 2,
       p_solid_capstyle = None \<rparr>
     \<in> set (drawn_by (SubwayMapGenerator 20 16) (draw_legend (SubwayMapGenerator 20 16))) \<and>
   zorder_of (Line2D [5, 9] [8, 8]
     \<lparr> p_color = ''#E63946'', p_linewidth = 4, p_linestyle = None, p_zorder = 2,
       p_solid_capstyle = None \<rparr>) \<noteq> Some 5"
  by (simp add: drawn_by_def draw_legend_def Let_def ax_plot_def ax_text_def
      SubwayMapGenerator_def COLORS_def)

text \<open>
  C3, amended. Each primitive only adds artists to the canvas. Every artist \<open>draw_line\<close>
  adds is a polyline at depth 2; every artist \<open>draw_station\<close> adds, whether it returns or
  raises, is a circle at depth 3 or 4; every artist \<open>add_label\<close> adds is a text at depth 5; every artist \<open>draw_legend\<close>
  adds is either a text at depth 5 or a line segment at depth 2.
\<close>

theorem zorder_layering:
  "(\<forall>r'. draw_line r points color linewidth style = Inr r' \<longrightarrow>
      draws_only r r' (\<lambda>a. is_line a \<and> zorder_of a = Some 2)) \<and>
   draws_only r (state_after (draw_station accepts r x y name color is_interchange sz))
     (\<lambda>a. is_circle a \<and> (zorder_of a = Some 3 \<or> zorder_of a = Some 4)) \<and>
   draws_only r (add_label r x y t opts) (\<lambda>a. is_text a \<and> zorder_of a = Some 5) \<and>
   draws_only r (draw_legend r)
     (\<lambda>a. (is_text a \<and> zorder_of a = Some 5) \<or> (is_line a \<and> zorder_of a = Some 2))"
proof (intro conjI allI impI)
  fix r'
  assume "draw_line r points color linewidth style = Inr r'"
  from draw_line_cases [OF this]
  show "draws_only r r' (\<lambda>a. is_line a \<and> zorder_of a = Some 2)"
    by (auto simp: draws_only_def drawn_by_def canvas_ax_plot)
next
  show "draws_only r (state_after (draw_station accepts r x y name color is_interchange sz))
     (\<lambda>a. is_circle a \<and> (zorder_of a = Some 3 \<or> zorder_of a = Some 4))"
    by (simp add: draws_only_def drawn_by_def draw_station_def new_Circle_def Let_def
        ax_add_patch_def)
next
  show "draws_only r (add_label r x y t opts) (\<lambda>a. is_text a \<and> zorder_of a = Some 5)"
    by (simp add: draws_only_def drawn_by_def add_label_def canvas_ax_text no_text_kw_def)
next
  show "draws_only r (draw_legend r)
     (\<lambda>a. (is_text a \<and> zorder_of a = Some 5) \<or> (is_line a \<and> zorder_of a = Some 2))"
    by (simp add: draws_only_def drawn_by_def draw_legend_def Let_def canvas_ax_plot
        canvas_ax_text no_text_kw_def)
qed

theorem zorder_layering_witness:
  "(\<exists>r'. draw_line (SubwayMapGenerator 20 16) [[50, 50], [70, 70]] ''#2A9D8F'' 4 ''-'' = Inr r' \<and>
      length (drawn_by (SubwayMapGenerator 20 16) r') = 1 \<and>
      list_all (\<lambda>a. is_line a \<and> zorder_of a = Some 2) (drawn_by (SubwayMapGenerator 20 16) r')) \<and>
   length (drawn_by (SubwayMapGenerator 20 16)
     (state_after (draw_station accepts_script_colors (SubwayMapGenerator 20 16)
        50 50 ''net/'' ''#2A9D8F'' True 0.8))) = 2 \<and>
   list_all (\<lambda>a. is_circle a \<and> (zorder_of a = Some 3 \<or> zorder_of a = Some 4))
     (drawn_by (SubwayMapGenerator 20 16)
       (state_after (draw_station accepts_script_colors (SubwayMapGenerator 20 16)
          50 50 ''net/'' ''#2A9D8F'' True 0.8))) \<and>
   length (drawn_by (SubwayMapGenerator 20 16)
     (add_label (SubwayMapGenerator 20 16) 50 50 ''net/'' add_label_defaults)) = 1 \<and>
   list_all (\<lambda>a. is_text a \<and> zorder_of a = Some 5)
     (drawn_by (SubwayMapGenerator 20 16)
       (add_label (SubwayMapGenerator 20 16) 50 50 ''net/'' add_label_defaults)) \<and>
   length (drawn_by (SubwayMapGenerator 20 16) (draw_legend (SubwayMapGenerator 20 16))) = 14 \<and>
   list_all (\<lambda>a. (is_text a \<and> zorder_of a = Some 5) \<or> (is_line a \<and> zorder_of a = Some 2))
     (drawn_by (SubwayMapGenerator 20 16) (draw_legend (SubwayMapGenerator 20 16)))"
proof -
  let ?r = "SubwayMapGenerator 20 16"
  obtain r' where r': "draw_line ?r [[50, 50], [70, 70]] ''#2A9D8F'' 4 ''-'' = Inr r'"
    by (simp add: draw_line_def zip_star_def)
  then have "length (drawn_by ?r r') = 1"
    by (auto simp: draw_line_def zip_star_def drawn_by_def ax_plot_def SubwayMapGenerator_def)
  moreover have "length (drawn_by ?r (state_after
      (draw_station accepts_script_colors ?r 50 50 ''net/'' ''#2A9D8F'' True 0.8))) = 2"
    by (simp add: drawn_by_def draw_station_def new_Circle_def Let_def ax_add_patch_def
        accepts_script_colors_def script_colors_def COLORS_def SubwayMapGenerator_def)
  moreover have "length (drawn_by ?r (add_label ?r 50 50 ''net/'' add_label_defaults)) = 1"
    by (simp add: drawn_by_def add_label_def canvas_ax_text SubwayMapGenerator_def)
  moreover have "length (drawn_by ?r (draw_legend ?r)) = 14"
    by (simp add: drawn_by_def draw_legend_def Let_def canvas_ax_plot canvas_ax_text
        SubwayMapGenerator_def)
  ultimately show ?thesis
    using r'
      zorder_layering [where r = ?r and accepts = accepts_script_colors
        and points = "[[50, 50], [70, 70]]"
        and color = "''#2A9D8F''" and linewidth = 4 and style = "''-''" and x = 50 and y = 50
        and name = "''net/''" and is_interchange = True and sz = "0.8" and t = "''net/''"
        and opts = add_label_defaults]
    by (auto simp: draws_only_def list_all_iff)
qed

text \<open>
  C4. The names \<open>generate_map\<close> hands to \<open>draw_station\<close> are pairwise distinct; there are
  39 of them; and after \<open>generate_map\<close> on a freshly constructed renderer (which returns
  normally) the stations mapping has as many entries as there were \<open>draw_station\<close>
  calls.
\<close>

theorem generate_map_station_names_unique:
  "distinct (station_names generate_map_body) \<and>
   length (station_names generate_map_body) = 39 \<and>
   (\<exists>r'. generate_map (SubwayMapGenerator width height) = Inr r' \<and>
      card (dom (stations r')) = length (station_names generate_map_body))"
proof -
  obtain r' where r': "generate_map (SubwayMapGenerator width height) = Inr r'"
    using generate_map_total by blast
  then have "dom (stations r') = set (station_names generate_map_body)"
    unfolding generate_map_def
    by (auto dest!: run_stations simp: SubwayMapGenerator_def)
  then have "card (dom (stations r')) = length (station_names generate_map_body)"
    by (simp add: distinct_card distinct_station_names)
  moreover have "length (station_names generate_map_body) = 39"
    unfolding station_names_generate_map_body by simp
  ultimately show ?thesis
    using r' distinct_station_names by blast
qed

text \<open>
  C6, as the claim states it, fails: it speaks of every call, and a call whose colour the
  library rejects raises ValueError in the \<open>Circle\<close> constructor, before the entry in
  \<open>self.stations\<close> is made. On a fresh renderer, for an interchange and with a test
  that rejects \<open>'notacolor'\<close>, the call raises after the white ring and the name is not
  recorded:
\<close>

theorem draw_station_not_recorded_counterexample:
  "draw_station accepts_script_colors (SubwayMapGenerator 20 16) 3 4 ''a'' ''notacolor'' True 0.8 =
     Inl (ValueError,
       ax_add_patch (SubwayMapGenerator 20 16) (Circle (3, 4) (0.8 * 1.2) ''white'' 3)) \<and>
   stations (state_after
     (draw_station accepts_script_colors (SubwayMapGenerator 20 16) 3 4 ''a'' ''notacolor'' True 0.8))
     ''a'' = None"
  by (simp add: draw_station_def new_Circle_def Let_def ax_add_patch_def
      accepts_script_colors_def script_colors_def COLORS_def SubwayMapGenerator_def)

text \<open>
  C6, amended. When the library accepts the colour (and \<open>'white'\<close>, for an interchange),
  \<open>draw_station(x, y, name, ...)\<close> returns, and then the stations mapping binds \<open>name\<close> to
  \<open>(x, y)\<close>, whatever \<open>is_interchange\<close> and \<open>size\<close> are, and every other key is bound as
  before the call.
\<close>

theorem draw_station_records_position:
  assumes "accepts color" and "is_interchange \<longrightarrow> accepts ''white''"
  shows "\<exists>r'. draw_station accepts r x y name color is_interchange sz = Inr r' \<and>
     stations r' name = Some (x, y) \<and>
     (\<forall>k. k \<noteq> name \<longrightarrow> stations r' k = stations r k)"
  using assms by (simp add: draw_station_def new_Circle_def Let_def ax_add_patch_def)

theorem draw_station_records_position_witness:
  "accepts_script_colors ''#2A9D8F'' \<and> accepts_script_colors ''white'' \<and>
   (\<exists>r'. draw_station accepts_script_colors
            ((SubwayMapGenerator 20 16)\<lparr>stations := [''proc:/'' \<mapsto> (50, 50)]\<rparr>)
            70 70 ''net/'' ''#2A9D8F'' True 0.8 = Inr r' \<and>
      stations r' ''net/'' = Some (70, 70) \<and>
      stations r' ''proc:/'' = Some (50, 50))"
proof -
  let ?r = "(SubwayMapGenerator 20 16)\<lparr>stations := [''proc:/'' \<mapsto> (50, 50)]\<rparr>"
  have ok: "accepts_script_colors ''#2A9D8F''" "True \<longrightarrow> accepts_script_colors ''white''"
    by (simp_all add: accepts_script_colors_def script_colors_def COLORS_def)
  have before: "stations ?r ''proc:/'' = Some (50, 50)"
    by simp
  have ne: "''proc:/'' \<noteq> ''net/''"
    by simp
  from draw_station_records_position [OF ok, of ?r 70 70 "''net/''" "0.8"] ne before ok
  show ?thesis
    by auto
qed

text \<open>
  C7. \<open>draw_legend\<close> adds, in this order, the two title texts and then six entries:
  System Info Line, Network Line, Configuration Line, Devices Line, Process Line, Storage
  Line. The entry of index \<open>i\<close> is a line segment from \<open>(5, 8 - 2 i)\<close> to \<open>(9, 8 - 2 i)\<close> in
  that line's colour of the palette, followed by the entry's name as text at
  \<open>(10, 8 - 2 i)\<close>.
\<close>

theorem draw_legend_entries:
  "canvas (draw_legend r) = canvas r @
     [ Text 5 26 ''PsProc Filesystem''
         (no_text_kw\<lparr> t_fontsize := Some 24, t_fontweight := Some ''bold'',
            t_zorder := Some 5 \<rparr>),
       Text 5 23 ''Subway Map''
         (no_text_kw\<lparr> t_fontsize := Some 20, t_fontweight := Some ''bold'',
            t_zorder := Some 5 \<rparr>) ] @
     concat (map (\<lambda>(i, label, color).
         [ Line2D [5, 5 + 4] [8 - 2 * i, 8 - 2 * i]
             \<lparr> p_color = color, p_linewidth = 4, p_linestyle = None, p_zorder = 2,
               p_solid_capstyle = None \<rparr>,
           Text (5 + 5) (8 - 2 * i) label
             (no_text_kw\<lparr> t_fontsize := Some 10, t_va := Some ''center'',
                t_zorder := Some 5 \<rparr>) ])
       [ (0, ''System Info Line'', system_info COLORS),
         (1, ''Network Line'', network COLORS),
         (2, ''Configuration Line'', config COLORS),
         (3, ''Devices Line'', devices COLORS),
         (4, ''Process Line'', processes COLORS),
         (5, ''Storage Line'', storage COLORS) ])"
  by (simp add: draw_legend_def Let_def ax_plot_def ax_text_def)

text \<open>
  C8. \<open>add_label\<close> adds exactly one text, anchored at \<open>(x + offset_x, y + offset_y)\<close>.
  Without the background option no box is handed over; with it the box is
  \<open>round,pad=0.3\<close> with white fill, gray border and opacity 0.9.
\<close>

theorem add_label_text:
  "canvas (add_label r x y t (opts\<lparr>bbox_style := False\<rparr>)) =
     canvas r @
       [ Text (x + offset_x opts) (y + offset_y opts) t
           \<lparr> t_fontsize = Some (fontsize opts), t_ha = Some (ha opts), t_va = Some (va opts),
             t_zorder = Some 5, t_fontweight = Some (fontweight opts), t_bbox = None,
             t_style = None, t_color = None \<rparr> ] \<and>
   canvas (add_label r x y t (opts\<lparr>bbox_style := True\<rparr>)) =
     canvas r @
       [ Text (x + offset_x opts) (y + offset_y opts) t
           \<lparr> t_fontsize = Some (fontsize opts), t_ha = Some (ha opts), t_va = Some (va opts),
             t_zorder = Some 5, t_fontweight = Some (fontweight opts),
             t_bbox = Some \<lparr> boxstyle = ''round,pad=0.3'', facecolor = ''white'',
                              edgecolor = ''gray'', alpha = 0.9 \<rparr>,
             t_style = None, t_color = None \<rparr> ]"
  by (simp add: add_label_def ax_text_def no_text_kw_def)

text \<open>
  C9. \<open>main\<close> returns normally with exactly one \<open>savefig\<close> call, of the generated figure,
  whose file name and DPI are the parsed \<open>args.output\<close> and \<open>args.dpi\<close> unchanged. Without
  \<open>-o/--output\<close> the parsed file name is \<open>codebase-subway-map.png\<close>, without \<open>--dpi\<close> the
  parsed DPI is 300, and a given value is the parsed one.
\<close>

theorem main_passes_arguments:
  "\<exists>g. generate_map (SubwayMapGenerator 20 16) = Inr g \<and>
     (\<exists>p. main output_given dpi_given = Inr p \<and>
        savefig_calls p =
          [ (ns_output (parse_args output_given dpi_given),
             \<lparr> sf_dpi = ns_dpi (parse_args output_given dpi_given),
               sf_bbox_inches = ''tight'', sf_facecolor = ''#f5f5f5'' \<rparr>, g) ]) \<and>
     ns_output (parse_args None dpi_given) = ''codebase-subway-map.png'' \<and>
     ns_dpi (parse_args output_given None) = 300 \<and>
     ns_output (parse_args (Some f) dpi_given) = f \<and>
     ns_dpi (parse_args output_given (Some n)) = n"
proof -
  obtain g where g: "generate_map (SubwayMapGenerator 20 16) = Inr g"
    using generate_map_total by blast
  then show ?thesis
    by (simp add: main_def Let_def save_def parse_args_def)
qed

text \<open>
  C10. \<open>draw_line\<close> (when it returns; when it raises it has changed nothing),
  \<open>add_label\<close> and \<open>draw_legend\<close> leave the stations mapping exactly as it was, whatever
  their arguments.
\<close>

theorem stations_frame:
  "(\<forall>r'. draw_line r points color linewidth style = Inr r' \<longrightarrow> stations r' = stations r) \<and>
   stations (add_label r x y t opts) = stations r \<and>
   stations (draw_legend r) = stations r"
proof (intro conjI allI impI)
  fix r'
  assume "draw_line r points color linewidth style = Inr r'"
  from draw_line_cases [OF this] show "stations r' = stations r"
    by (auto simp: stations_ax_plot)
qed (simp_all add: stations_add_label stations_draw_legend)

theorem stations_frame_witness:
  "\<exists>r'. draw_line (state_after (draw_station accepts_script_colors (SubwayMapGenerator 20 16)
             50 50 ''proc:/'' ''black'' True 1.5))
           [[50, 50], [70, 70]] ''#2A9D8F'' 4 ''-'' = Inr r' \<and>
         stations r' =
           stations (state_after (draw_station accepts_script_colors (SubwayMapGenerator 20 16)
             50 50 ''proc:/'' ''black'' True 1.5)) \<and>
         stations r' ''proc:/'' = Some (50, 50)"
proof -
  let ?r = "state_after (draw_station accepts_script_colors (SubwayMapGenerator 20 16)
    50 50 ''proc:/'' ''black'' True 1.5)"
  obtain r' where r': "draw_line ?r [[50, 50], [70, 70]] ''#2A9D8F'' 4 ''-'' = Inr r'"
    by (simp add: draw_line_def zip_star_def)
  have "stations ?r ''proc:/'' = Some (50, 50)"
    by (simp add: draw_station_def new_Circle_def Let_def ax_add_patch_def
        accepts_script_colors_def script_colors_def COLORS_def)
  with r' stations_frame [of ?r "[[50, 50], [70, 70]]" "''#2A9D8F''" 4 "''-''"]
  show ?thesis
    by auto
qed

end
